theory Spec2Isabelle
  imports Complex_Main "HOL-Library.Word"
begin

section \<open>Python string primitives used by the voice assistant\<close>

text \<open>
  Python \<^verbatim>\<open>str\<close> values are modelled as HOL strings: lists of 8-bit characters, read as
  the code points 0..255.  On that range the library predicates behind \<^verbatim>\<open>\s\<close>,
  \<^verbatim>\<open>\w\<close>, \<^verbatim>\<open>str.strip\<close> and \<^verbatim>\<open>str.lower\<close> are the following.
\<close>

definition ord :: "char \<Rightarrow> nat" where
  "ord c = of_char c"

definition py_isspace :: "char \<Rightarrow> bool" where
  "py_isspace c =
     (let n = ord c in (9 \<le> n \<and> n \<le> 13) \<or> (28 \<le> n \<and> n \<le> 32) \<or> n = 133 \<or> n = 160)"

definition re_word :: "char \<Rightarrow> bool" where
  "re_word c =
     (let n = ord c in
        (48 \<le> n \<and> n \<le> 57) \<or> (65 \<le> n \<and> n \<le> 90) \<or> n = 95 \<or> (97 \<le> n \<and> n \<le> 122) \<or>
        n = 170 \<or> n = 178 \<or> n = 179 \<or> n = 181 \<or> n = 185 \<or> n = 186 \<or>
        (188 \<le> n \<and> n \<le> 190) \<or> (192 \<le> n \<and> n \<le> 214) \<or> (216 \<le> n \<and> n \<le> 246) \<or>
        (248 \<le> n \<and> n \<le> 255))"

definition lower_char :: "char \<Rightarrow> char" where
  "lower_char c =
     (let n = ord c in
        if (65 \<le> n \<and> n \<le> 90) \<or> (192 \<le> n \<and> n \<le> 222 \<and> n \<noteq> 215)
        then char_of (n + 32) else c)"

definition py_lower :: "string \<Rightarrow> string" where
  "py_lower s = map lower_char s"

definition py_strip :: "string \<Rightarrow> string" where
  "py_strip s = rev (dropWhile py_isspace (rev (dropWhile py_isspace s)))"

section \<open>Goodbye detection (core/interface.py)\<close>

definition goodbye_phrases :: "string list" where
  "goodbye_phrases =
     [''goodbye'', ''bye'', ''bye bye'', ''see you'', ''see you later'',
      ''talk to you later'', ''exit'', ''quit'']"

text \<open>\<^verbatim>\<open>re.sub(r'[^\w\s]', '', s)\<close> keeps exactly the characters matching \<^verbatim>\<open>\w\<close> or \<^verbatim>\<open>\s\<close>.\<close>

definition re_sub_nonword :: "string \<Rightarrow> string" where
  "re_sub_nonword s = filter (\<lambda>c. re_word c \<or> py_isspace c) s"

definition is_goodbye_command :: "string \<Rightarrow> bool" where
  "is_goodbye_command text =
     (let clean_text = py_strip (re_sub_nonword (py_lower text))
      in clean_text \<in> set goodbye_phrases)"


text \<open>
  Two notions used only to state properties: a punctuation character is one that the
  regular expression deletes, and \<open>ascii_upper\<close> capitalises the letters a..z.
\<close>

definition punctuation :: "char \<Rightarrow> bool" where
  "punctuation c = (\<not> re_word c \<and> \<not> py_isspace c)"

definition ascii_upper :: "char \<Rightarrow> char" where
  "ascii_upper c = (let n = ord c in if 97 \<le> n \<and> n \<le> 122 then char_of (n - 32) else c)"

definition has_lower :: "nat \<Rightarrow> bool" where
  "has_lower n = ((65 \<le> n \<and> n \<le> 90) \<or> (192 \<le> n \<and> n \<le> 222 \<and> n \<noteq> 215))"

section \<open>Configuration (config/settings.py)\<close>

text \<open>
  The dataclasses of the configuration, with the fields the modelled functions read
  (\<open>vad_chunk_size\<close> is the field \<open>chunk_size\<close> of \<open>VADConfig\<close>).  Python floats are
  modelled as reals; an optional float is an option.
\<close>

record audio_config =
  chunk_size :: int
  channels :: int
  sample_rate :: int
  silence_threshold :: real
  silence_duration :: real
  noise_floor :: "real option"
  calibration_samples :: nat

definition default_audio_config :: audio_config where
  "default_audio_config =
     \<lparr>chunk_size = 1024, channels = 1, sample_rate = 16000, silence_threshold = 1000,
      silence_duration = 2, noise_floor = None, calibration_samples = 50\<rparr>"

record vad_config =
  speech_start_threshold :: real
  speech_continue_threshold :: real
  pre_buffer_size :: nat
  vad_chunk_size :: int
  min_speech_chunks :: nat
  consecutive_speech_needed :: nat
  inactivity_timeout :: real

definition default_vad_config :: vad_config where
  "default_vad_config =
     \<lparr>speech_start_threshold = 85 / 100, speech_continue_threshold = 1 / 2,
      pre_buffer_size = 10, vad_chunk_size = 512, min_speech_chunks = 3,
      consecutive_speech_needed = 2, inactivity_timeout = 120\<rparr>"

record transcription_config =
  min_audio_length :: real

definition default_transcription_config :: transcription_config where
  "default_transcription_config = \<lparr>min_audio_length = 1 / 2\<rparr>"

text \<open>Exceptions that leave a modelled function are values of this type.\<close>

datatype py_exn = ZeroDivisionError | TypeError | AttributeError | OSError

section \<open>Transcription post-filter (transcription/whisper.py)\<close>

text \<open>
  \<open>transcribe\<close> takes the recognition model as a parameter: \<open>None\<close> when no model
  is loaded, otherwise the function from the audio frames to the model's text.  The
  frames are opaque here.  The duration is computed before the filter, as in the source,
  and dividing by a zero sample rate raises.
\<close>

definition is_ascii :: "string \<Rightarrow> bool" where
  "is_ascii s = list_all (\<lambda>c. ord c < 128) s"

definition noise_texts :: "string list" where
  "noise_texts = [''.'', '','', ''?'', ''!'', ''...'', ''---'']"

definition transcribe ::
  "('c list \<Rightarrow> string) option \<Rightarrow> audio_config \<Rightarrow> transcription_config \<Rightarrow> 'c list \<Rightarrow>
   py_exn + string option" where
  "transcribe model ac tc audio_frames =
     (case model of
        None \<Rightarrow> Inr None
      | Some m \<Rightarrow>
          if audio_frames = [] then Inr None
          else
            let text = py_strip (m audio_frames) in
            if sample_rate ac = 0 then Inl ZeroDivisionError
            else
              let audio_duration =
                    real_of_int (int (length audio_frames) * chunk_size ac) /
                    real_of_int (sample_rate ac)
              in
                if audio_duration < min_audio_length tc then Inr None
                else
                  let text = (if is_ascii text then text else filter (\<lambda>c. ord c < 128) text)
                  in if length text \<le> 1 \<or> text \<in> set noise_texts then Inr None
                     else Inr (Some text))"

text \<open>
  Notions used to state the properties of \<open>transcribe\<close>: the duration it computes, the
  text that reaches the noise filter, and texts made of digits, spaces and commas.
\<close>

definition audio_duration :: "audio_config \<Rightarrow> 'c list \<Rightarrow> real" where
  "audio_duration ac audio_frames =
     real_of_int (int (length audio_frames) * chunk_size ac) / real_of_int (sample_rate ac)"

definition ascii_text :: "('c list \<Rightarrow> string) \<Rightarrow> 'c list \<Rightarrow> string" where
  "ascii_text m audio_frames = filter (\<lambda>c. ord c < 128) (py_strip (m audio_frames))"


section \<open>Audio recorder (audio/recorder.py)\<close>

subsection \<open>Amplitude of a chunk\<close>

text \<open>
  A chunk is the buffer one read of the input stream returns: signed 16-bit samples.
  The amplitude is the root mean square of the samples.  numpy yields NaN for a chunk
  without samples; NaN is the value \<open>None\<close> here, and every comparison with it is false.
\<close>

type_synonym chunk = "16 word list"

definition np_mean :: "real list \<Rightarrow> real" where
  "np_mean xs = sum_list xs / real (length xs)"

definition np_std :: "real list \<Rightarrow> real" where
  "np_std xs = sqrt (np_mean (map (\<lambda>x. (x - np_mean xs)\<^sup>2) xs))"

definition get_audio_amplitude :: "chunk \<Rightarrow> real option" where
  "get_audio_amplitude data =
     (if data = [] then None
      else Some (sqrt (np_mean (map (\<lambda>w. real_of_int ((sint w)\<^sup>2)) data))))"

definition exceeds :: "real option \<Rightarrow> real \<Rightarrow> bool" where
  "exceeds a threshold = (case a of None \<Rightarrow> False | Some x \<Rightarrow> x > threshold)"

subsection \<open>Noise calibration\<close>

text \<open>
  \<open>calibrate_noise_floor\<close> reads \<open>calibration_samples\<close> chunks from the stream, given
  here as the list of chunks the device delivers.  When the statistics are NaN (no
  sample chunk, or a chunk without samples) both fields become NaN: the outcome
  \<open>Not_a_number\<close>.
\<close>

datatype calibration = Not_a_number | Calibrated audio_config

definition calibrate_noise_floor :: "audio_config \<Rightarrow> chunk list \<Rightarrow> calibration" where
  "calibrate_noise_floor ac stream =
     (let amplitudes = map get_audio_amplitude (take (calibration_samples ac) stream) in
      if amplitudes = [] \<or> None \<in> set amplitudes then Not_a_number
      else
        let xs = map the amplitudes;
            nf = np_mean xs + 2 * np_std xs;
            adaptive_threshold = nf * 3
        in Calibrated (ac\<lparr>noise_floor := Some nf,
                            silence_threshold := max adaptive_threshold 1000\<rparr>))"

text \<open>
  \<open>load_calibration\<close> runs when the recorder is constructed.  Its second argument is
  the calibration file: \<open>None\<close> when there is no readable file, otherwise the value
  stored under "noise_floor" (\<open>None\<close> when the key is absent).
\<close>

definition load_calibration :: "audio_config \<Rightarrow> real option option \<Rightarrow> audio_config" where
  "load_calibration ac calibration_file =
     (case calibration_file of
        None \<Rightarrow> ac
      | Some nf \<Rightarrow>
          (case nf of
             None \<Rightarrow> ac\<lparr>noise_floor := None\<rparr>
           | Some x \<Rightarrow>
               if x \<noteq> 0
               then ac\<lparr>noise_floor := Some x,
                       silence_threshold := max (x * 3) (silence_threshold ac)\<rparr>
               else ac\<lparr>noise_floor := Some x\<rparr>))"

definition save_calibration :: "audio_config \<Rightarrow> real option option" where
  "save_calibration ac = Some (noise_floor ac)"

subsection \<open>The input stream seen by the recording loops\<close>

text \<open>
  One pass through a recording loop reads the clock and one chunk.  A tick carries the
  chunk and the clock readings of that pass, in the order the loop takes them: at the
  timeout check, at the inactivity check, and after the chunk has been classified.
  (The amplitude loop takes only the first.)  A keyboard interrupt can arrive instead.
  A loop that has used up the events it was given without leaving is \<open>Pending\<close>.
\<close>

record tick =
  at_timeout_check :: real
  at_inactivity_check :: real
  chunk_read :: chunk
  at_chunk_end :: real

datatype event = Tick tick | KeyboardInterrupt

datatype 'a run = Pending | Raised py_exn | Returned 'a

definition timed_out :: "real option \<Rightarrow> real \<Rightarrow> real \<Rightarrow> bool" where
  "timed_out timeout start_time now =
     (case timeout of None \<Rightarrow> False | Some t \<Rightarrow> t \<noteq> 0 \<and> now - start_time > t)"

subsection \<open>Amplitude-based recording\<close>

record amp_state =
  a_frames :: "chunk list"
  silent_chunks :: nat
  a_recording_started :: bool

definition amp_init :: amp_state where
  "amp_init = \<lparr>a_frames = [], silent_chunks = 0, a_recording_started = False\<rparr>"

definition amp_finish :: "chunk list \<Rightarrow> chunk list option" where
  "amp_finish fs =
     (if fs = [] then None
      else Some (if length fs > 20 then take (length fs - 10) fs else fs))"

fun amp_loop ::
  "audio_config \<Rightarrow> real option \<Rightarrow> real \<Rightarrow> amp_state \<Rightarrow> event list \<Rightarrow> chunk list option run"
where
  "amp_loop ac timeout start_time s [] = Pending"
| "amp_loop ac timeout start_time s (KeyboardInterrupt # es) = Returned None"
| "amp_loop ac timeout start_time s (Tick t # es) =
     (if timed_out timeout start_time (at_timeout_check t) \<and> \<not> a_recording_started s
      then Returned (amp_finish (a_frames s))
      else
        let data = chunk_read t; amplitude = get_audio_amplitude data in
        if exceeds amplitude (silence_threshold ac)
        then amp_loop ac timeout start_time
               (s\<lparr>a_recording_started := True, a_frames := a_frames s @ [data],
                  silent_chunks := 0\<rparr>) es
        else if a_recording_started s
        then
          let fs = a_frames s @ [data]; n = silent_chunks s + 1 in
          if sample_rate ac = 0 then Raised ZeroDivisionError
          else
            let silence_time = real_of_int (int n * chunk_size ac) / real_of_int (sample_rate ac)
            in if silence_time > silence_duration ac then Returned (amp_finish fs)
               else amp_loop ac timeout start_time (s\<lparr>a_frames := fs, silent_chunks := n\<rparr>) es
        else amp_loop ac timeout start_time s es)"

definition record_with_amplitude ::
  "audio_config \<Rightarrow> real option \<Rightarrow> real \<Rightarrow> event list \<Rightarrow> chunk list option run" where
  "record_with_amplitude ac timeout start_time events =
     amp_loop ac timeout start_time amp_init events"

subsection \<open>End-of-segment trimming\<close>

text \<open>
  The probability model is a parameter: \<open>None\<close> when it is not loaded, otherwise the
  function from a chunk to its speech probability.  \<open>last_speech_from vad fs n\<close> is the
  backward scan over the indices below \<open>n\<close>.
\<close>

primrec last_speech_from :: "(chunk \<Rightarrow> real) \<Rightarrow> chunk list \<Rightarrow> nat \<Rightarrow> nat option" where
  "last_speech_from vad fs 0 = None"
| "last_speech_from vad fs (Suc i) =
     (if vad (fs ! i) > 6 / 10 then Some i else last_speech_from vad fs i)"

definition trim_silence_with_vad :: "(chunk \<Rightarrow> real) option \<Rightarrow> chunk list \<Rightarrow> chunk list" where
  "trim_silence_with_vad vad_model fs =
     (case vad_model of
        None \<Rightarrow> fs
      | Some vad \<Rightarrow>
          if length fs < 20 then fs
          else
            let last_speech_index =
                  (case last_speech_from vad fs (length fs) of
                     None \<Rightarrow> length fs - 1
                   | Some i \<Rightarrow> i);
                trim_index = min (last_speech_index + 10) (length fs)
            in take trim_index fs)"

subsection \<open>Recording with voice activity detection\<close>

record vad_state =
  frames :: "chunk list"
  pre_buffer :: "chunk list"
  recording_started :: bool
  consecutive_speech_count :: nat
  silence_start_time :: "real option"
  last_activity_time :: real

definition vad_init :: "real \<Rightarrow> vad_state" where
  "vad_init now =
     \<lparr>frames = [], pre_buffer = [], recording_started = False,
      consecutive_speech_count = 0, silence_start_time = None, last_activity_time = now\<rparr>"

text \<open>Appending to a \<^verbatim>\<open>deque(maxlen=n)\<close> evicts from the left.\<close>

definition deque_append :: "nat \<Rightarrow> 'a list \<Rightarrow> 'a \<Rightarrow> 'a list" where
  "deque_append maxlen q x = (let q' = q @ [x] in drop (length q' - maxlen) q')"

definition vad_finish :: "(chunk \<Rightarrow> real) \<Rightarrow> vad_state \<Rightarrow> chunk list option" where
  "vad_finish vad s =
     (if frames s = [] \<or> \<not> recording_started s then None
      else Some (trim_silence_with_vad (Some vad) (frames s)))"

text \<open>
  One pass of the loop after the chunk has been read: the new state, and whether the
  loop is left (the silence after speech has lasted longer than \<open>silence_duration\<close>).
\<close>

definition vad_classify ::
  "(chunk \<Rightarrow> real) \<Rightarrow> audio_config \<Rightarrow> vad_config \<Rightarrow> vad_state \<Rightarrow> tick \<Rightarrow> vad_state \<times> bool" where
  "vad_classify vad ac vc s t =
     (let data = chunk_read t;
          speech_prob = vad data;
          is_speech = (if recording_started s then speech_prob > speech_continue_threshold vc
                       else speech_prob > speech_start_threshold vc);
          s1 = (if \<not> recording_started s \<and> speech_prob > 6 / 10
                then s\<lparr>pre_buffer := deque_append (pre_buffer_size vc) (pre_buffer s) data\<rparr>
                else s)
      in
        if is_speech then
          let s2 = s1\<lparr>consecutive_speech_count := consecutive_speech_count s1 + 1,
                      last_activity_time := at_chunk_end t\<rparr>;
              required_chunks = (if \<not> recording_started s2 then consecutive_speech_needed vc
                                 else min_speech_chunks vc);
              s3 = (if \<not> recording_started s2 \<and> consecutive_speech_count s2 \<ge> required_chunks
                    then s2\<lparr>recording_started := True,
                            frames := frames s2 @ pre_buffer s2, pre_buffer := []\<rparr>
                    else s2)
          in (if recording_started s3
              then s3\<lparr>frames := frames s3 @ [data], silence_start_time := None\<rparr>
              else s3, False)
        else
          let s2 = s1\<lparr>consecutive_speech_count := 0\<rparr> in
          if recording_started s2 then
            let s3 = s2\<lparr>frames := frames s2 @ [data]\<rparr> in
            (case silence_start_time s3 of
               None \<Rightarrow> (s3\<lparr>silence_start_time := Some (at_chunk_end t)\<rparr>, False)
             | Some t0 \<Rightarrow> (s3, at_chunk_end t - t0 > silence_duration ac))
          else (s2, False))"

text \<open>
  One pass of the \<^verbatim>\<open>while True\<close> loop on the next event: either the loop is left with
  the value the function returns (\<open>Inl\<close>), or it goes on in a new state (\<open>Inr\<close>).
\<close>

definition vad_pass ::
  "(chunk \<Rightarrow> real) \<Rightarrow> audio_config \<Rightarrow> vad_config \<Rightarrow> real option \<Rightarrow> real \<Rightarrow> vad_state \<Rightarrow>
   event \<Rightarrow> chunk list option + vad_state" where
  "vad_pass vad ac vc timeout start_time s e =
     (case e of
        KeyboardInterrupt \<Rightarrow> Inl None
      | Tick t \<Rightarrow>
          if timed_out timeout start_time (at_timeout_check t) \<and> \<not> recording_started s
          then Inl (vad_finish vad s)
          else if at_inactivity_check t - last_activity_time s > inactivity_timeout vc
          then Inl (vad_finish vad s)
          else
            (case vad_classify vad ac vc s t of
               (s', leave) \<Rightarrow> if leave then Inl (vad_finish vad s') else Inr s'))"

fun vad_loop ::
  "(chunk \<Rightarrow> real) \<Rightarrow> audio_config \<Rightarrow> vad_config \<Rightarrow> real option \<Rightarrow> real \<Rightarrow> vad_state \<Rightarrow>
   event list \<Rightarrow> chunk list option run"
where
  "vad_loop vad ac vc timeout start_time s [] = Pending"
| "vad_loop vad ac vc timeout start_time s (e # es) =
     (case vad_pass vad ac vc timeout start_time s e of
        Inl r \<Rightarrow> Returned r
      | Inr s' \<Rightarrow> vad_loop vad ac vc timeout start_time s' es)"

text \<open>
  \<open>record_with_vad\<close>: without a probability model the amplitude recorder is used.
  \<open>start_time\<close> and \<open>started_listening\<close> are the two clock readings taken before the loop.
\<close>

definition record_with_vad ::
  "(chunk \<Rightarrow> real) option \<Rightarrow> audio_config \<Rightarrow> vad_config \<Rightarrow> real option \<Rightarrow> real \<Rightarrow> real \<Rightarrow>
   event list \<Rightarrow> chunk list option run" where
  "record_with_vad vad_model ac vc timeout start_time started_listening events =
     (case vad_model of
        None \<Rightarrow> record_with_amplitude ac timeout start_time events
      | Some vad \<Rightarrow> vad_loop vad ac vc timeout start_time (vad_init started_listening) events)"

subsection \<open>Notions used to state the properties of the recorder\<close>

text \<open>
  \<open>vad_after\<close> is the state of the loop after the given events, when none of them made
  it leave.  \<open>segment_of b d s\<close> is a segment made of the pre-buffer contents \<open>b\<close>, the
  chunk \<open>d\<close> on which recording started and the trailing chunks \<open>s\<close>, of which nine are
  kept once the whole has 20 chunks or more.
\<close>

fun vad_after ::
  "(chunk \<Rightarrow> real) \<Rightarrow> audio_config \<Rightarrow> vad_config \<Rightarrow> real option \<Rightarrow> real \<Rightarrow> vad_state \<Rightarrow>
   event list \<Rightarrow> vad_state option"
where
  "vad_after vad ac vc timeout start_time s [] = Some s"
| "vad_after vad ac vc timeout start_time s (e # es) =
     (case vad_pass vad ac vc timeout start_time s e of
        Inl r \<Rightarrow> None
      | Inr s' \<Rightarrow> vad_after vad ac vc timeout start_time s' es)"

definition segment_of :: "chunk list \<Rightarrow> chunk \<Rightarrow> chunk list \<Rightarrow> chunk list" where
  "segment_of b d s = b @ [d] @ (if length b + 1 + length s < 20 then s else take 9 s)"

text \<open>
  An event that cannot start a recording: a chunk whose amplitude does not exceed the
  silence threshold, or a keyboard interrupt.
\<close>

definition quiet_event :: "audio_config \<Rightarrow> event \<Rightarrow> bool" where
  "quiet_event ac e =
     (case e of
        Tick k \<Rightarrow> \<not> exceeds (get_audio_amplitude (chunk_read k)) (silence_threshold ac)
      | KeyboardInterrupt \<Rightarrow> True)"

text \<open>
  What holds of the loop's state throughout: nothing is recorded before the start, and
  the pre-buffer is bounded and holds only chunks of probability above 0.6.
\<close>

definition vad_inv :: "(chunk \<Rightarrow> real) \<Rightarrow> vad_config \<Rightarrow> vad_state \<Rightarrow> bool" where
  "vad_inv vad vc s =
     ((recording_started s \<or> frames s = []) \<and>
      length (pre_buffer s) \<le> pre_buffer_size vc \<and>
      list_all (\<lambda>c. vad c > 6 / 10) (pre_buffer s))"

subsection \<open>A probability model for concrete runs\<close>

text \<open>
  Used only to evaluate the recorder on concrete inputs: the speech probability of a
  chunk is its first sample read as a percentage, so \<open>[90]\<close> has probability 0.9.
\<close>

definition demo_vad :: "chunk \<Rightarrow> real" where
  "demo_vad c = (case c of [] \<Rightarrow> 0 | w # _ \<Rightarrow> real (unat w) / 100)"

text \<open>A tick whose three clock readings are the same instant.\<close>

definition tick_at :: "real \<Rightarrow> chunk \<Rightarrow> event" where
  "tick_at t c =
     Tick \<lparr>at_timeout_check = t, at_inactivity_check = t, chunk_read = c, at_chunk_end = t\<rparr>"

section \<open>External agent session (core/claude_client.py, profiles/manager.py)\<close>

subsection \<open>Files, JSON values and the external process\<close>

text \<open>
  A path is its list of components; the file system is the map from the paths of files
  to their contents (directories are not tracked: the code creates the working
  directory before every call).  \<^verbatim>\<open>json.loads\<close> is a parameter \<open>loads\<close>, which yields \<open>None\<close>
  where the library raises \<^verbatim>\<open>JSONDecodeError\<close>; a JSON object is the association list
  of its dictionary.  The external process is given by what it
  did on one call: it could not be started, or it exited with a return code, its
  standard output and its standard error.
\<close>

type_synonym path = "string list"

type_synonym files = "path \<rightharpoonup> string"

datatype json =
  JNull | JBool bool | JNum real | JStr string | JArr "json list" | JObj "(string \<times> json) list"

datatype proc_outcome = Spawn_failed | Exited int string string

text \<open>
  What \<open>send_query\<close> returns: a text, or the text "Error: " followed by the message of
  the exception that was caught.
\<close>

datatype reply = Said string | Caught py_exn

record dispatch =
  cmd :: "string list"
  cwd :: path
  files_at_call :: files
  files_after :: files
  response :: reply

primrec contains :: "string \<Rightarrow> string \<Rightarrow> bool" where
  "contains [] p = (p = [])"
| "contains (c # s) p = (take (length p) (c # s) = p \<or> contains s p)"

subsection \<open>send_query\<close>

definition session_file_of :: "path option \<Rightarrow> path" where
  "session_file_of profile_path =
     (case profile_path of
        Some p \<Rightarrow> p @ [''.session_id'']
      | None \<Rightarrow> [''.context'', ''.session_id''])"

definition cwd_of :: "path option \<Rightarrow> path" where
  "cwd_of profile_path = (case profile_path of Some p \<Rightarrow> p | None \<Rightarrow> [''.context''])"

definition base_cmd :: "string list" where
  "base_cmd = [''claude'', ''--print'', ''--output-format'', ''json'']"

text \<open>The part of \<open>send_query\<close> that runs once the process has exited with code 0.\<close>

definition result_text :: "(string \<times> json) list \<Rightarrow> reply" where
  "result_text kv =
     (case map_of kv ''result'' of
        None \<Rightarrow> Said (py_strip [])
      | Some (JStr r) \<Rightarrow> Said (py_strip r)
      | Some _ \<Rightarrow> Caught AttributeError)"

definition parse_response ::
  "(string \<Rightarrow> json option) \<Rightarrow> path \<Rightarrow> files \<Rightarrow> string \<Rightarrow> files \<times> reply" where
  "parse_response loads session_file fs stdout =
     (case loads stdout of
        None \<Rightarrow> (fs, Said (py_strip stdout))
      | Some response_data \<Rightarrow>
          (case response_data of
             JObj kv \<Rightarrow>
               (case map_of kv ''session_id'' of
                  None \<Rightarrow> (fs, result_text kv)
                | Some (JStr new_session_id) \<Rightarrow>
                    (fs(session_file \<mapsto> new_session_id), result_text kv)
                | Some _ \<Rightarrow> (fs, Caught TypeError))
           | JArr xs \<Rightarrow>
               (fs, if JStr ''session_id'' \<in> set xs then Caught TypeError
                    else Caught AttributeError)
           | JStr s \<Rightarrow>
               (fs, if contains s ''session_id'' then Caught TypeError
                    else Caught AttributeError)
           | _ \<Rightarrow> (fs, Caught TypeError)))"

text \<open>
  \<open>send_query\<close> in the order of the source: the session file is deleted when a reset
  is requested, the command is built, the process runs, its outcome is handled.
\<close>

definition discard_on_reset :: "bool \<Rightarrow> path \<Rightarrow> files \<Rightarrow> files" where
  "discard_on_reset reset_context session_file fs =
     (if reset_context \<and> fs session_file \<noteq> None then fs(session_file := None) else fs)"

definition build_command :: "bool \<Rightarrow> path \<Rightarrow> files \<Rightarrow> string \<Rightarrow> string list" where
  "build_command reset_context session_file fs text =
     (case fs session_file of
        Some content \<Rightarrow>
          if \<not> reset_context
          then base_cmd @ [''--resume'', py_strip content] @ [text]
          else base_cmd @ [text]
      | None \<Rightarrow> base_cmd @ [text])"

definition handle_outcome ::
  "(string \<Rightarrow> json option) \<Rightarrow> path \<Rightarrow> files \<Rightarrow> proc_outcome \<Rightarrow> files \<times> reply" where
  "handle_outcome loads session_file fs outcome =
     (case outcome of
        Spawn_failed \<Rightarrow> (fs, Caught OSError)
      | Exited returncode stdout stderr \<Rightarrow>
          if returncode \<noteq> 0
          then (fs, Said (''Error: '' @
                  (if stderr \<noteq> [] then py_strip stderr else ''Unknown error'')))
          else parse_response loads session_file fs stdout)"

definition send_query ::
  "(string \<Rightarrow> json option) \<Rightarrow> files \<Rightarrow> string \<Rightarrow> path option \<Rightarrow> bool \<Rightarrow> proc_outcome \<Rightarrow>
   dispatch" where
  "send_query loads fs text profile_path reset_context outcome =
     (let session_file = session_file_of profile_path;
          fs1 = discard_on_reset reset_context session_file fs;
          command = build_command reset_context session_file fs1 text;
          result = handle_outcome loads session_file fs1 outcome
      in \<lparr>cmd = command, cwd = cwd_of profile_path, files_at_call = fs1,
          files_after = fst result, response = snd result\<rparr>)"

subsection \<open>The profile manager's reset flag and send_to_claude\<close>

text \<open>
  \<open>session_id\<close> is the identifier the profile manager generates for its own state file;
  \<open>reset_context\<close> takes the fresh UUID as an argument.
\<close>

record profile_manager =
  context_dir :: path
  current_profile :: "string option"
  reset_context_mode :: bool
  session_id :: "string option"

definition get_current_profile_path :: "profile_manager \<Rightarrow> path option" where
  "get_current_profile_path pm =
     (case current_profile pm of
        None \<Rightarrow> None
      | Some name \<Rightarrow> if name \<noteq> [] then Some (context_dir pm @ [name]) else None)"

definition reset_context :: "profile_manager \<Rightarrow> string \<Rightarrow> profile_manager" where
  "reset_context pm uuid = pm\<lparr>session_id := Some uuid, reset_context_mode := True\<rparr>"

definition send_to_claude ::
  "(string \<Rightarrow> json option) \<Rightarrow> files \<Rightarrow> profile_manager \<Rightarrow> string \<Rightarrow> proc_outcome \<Rightarrow>
   dispatch \<times> profile_manager" where
  "send_to_claude loads fs pm text outcome =
     (let profile_path = get_current_profile_path pm;
          d = send_query loads fs text profile_path (reset_context_mode pm) outcome;
          pm' = (if reset_context_mode pm then pm\<lparr>reset_context_mode := False\<rparr> else pm)
      in (d, pm'))"

subsection \<open>Notions used to state the properties\<close>

text \<open>
  The identifier a reply hands over: the process exited with code 0 and its output is a
  JSON object whose "session_id" is a string.  \<open>dispatches\<close> runs a list of turns
  (text, reset flag and what the process did) for one profile, one after the other.
\<close>

definition new_session_id :: "(string \<Rightarrow> json option) \<Rightarrow> proc_outcome \<Rightarrow> string option" where
  "new_session_id loads outcome =
     (case outcome of
        Spawn_failed \<Rightarrow> None
      | Exited returncode stdout stderr \<Rightarrow>
          if returncode \<noteq> 0 then None
          else
            (case loads stdout of
               Some (JObj kv) \<Rightarrow>
                 (case map_of kv ''session_id'' of Some (JStr y) \<Rightarrow> Some y | _ \<Rightarrow> None)
             | _ \<Rightarrow> None))"


text \<open>A parser for concrete runs: it knows two outputs.\<close>

definition demo_loads :: "string \<Rightarrow> json option" where
  "demo_loads s =
     (if s = ''{session_id: Y, result: ok}''
      then Some (JObj [(''session_id'', JStr ''Y''), (''result'', JStr ''ok'')])
      else if s = ''{session_id:  Y , result: ok}''
      then Some (JObj [(''session_id'', JStr '' Y ''), (''result'', JStr ''ok'')])
      else None)"

section \<open>Interruption monitor (core/interface.py)\<close>





























section \<open>Properties of goodbye detection\<close>

lemma ord_less_256: "ord c < 256"
  by (simp add: ord_def)

lemma ord_char_of: "n < 256 \<Longrightarrow> ord (char_of n) = n"
  by (simp add: ord_def)

lemma char_of_ord: "char_of (ord c) = c"
  by (simp add: ord_def)

lemma lower_char_changed: "has_lower (ord c) \<Longrightarrow> lower_char c = char_of (ord c + 32)"
  unfolding lower_char_def Let_def has_lower_def by (rule if_P)

lemma lower_char_same: "\<not> has_lower (ord c) \<Longrightarrow> lower_char c = c"
  unfolding lower_char_def Let_def has_lower_def by (rule if_not_P)

lemma has_lower_word: "has_lower (ord c) \<Longrightarrow> re_word c"
  unfolding has_lower_def re_word_def Let_def
  by (elim disjE conjE) (simp, (simp; arith))

lemma lower_char_punctuation: "punctuation c \<Longrightarrow> lower_char c = c"
proof -
  assume "punctuation c"
  then have "\<not> re_word c" by (simp add: punctuation_def)
  then have "\<not> has_lower (ord c)" using has_lower_word by blast
  then show ?thesis by (rule lower_char_same)
qed

lemma lower_char_ascii_upper: "lower_char (ascii_upper c) = lower_char c"
proof (cases "97 \<le> ord c \<and> ord c \<le> 122")
  case True
  then have "ord c - 32 < 256" by arith
  then have o: "ord (char_of (ord c - 32)) = ord c - 32"
    by (rule ord_char_of)
  have e: "ord c - 32 + 32 = ord c" using True by arith
  have r: "has_lower (ord c - 32)" unfolding has_lower_def using True by arith
  have nl: "\<not> has_lower (ord c)" unfolding has_lower_def using True by arith
  have u: "ascii_upper c = char_of (ord c - 32)"
    unfolding ascii_upper_def Let_def using True by (rule if_P)
  have "lower_char (char_of (ord c - 32)) = char_of (ord c - 32 + 32)"
    using lower_char_changed [of "char_of (ord c - 32)", unfolded o] r by blast
  also have "\<dots> = c" by (simp only: e char_of_ord)
  finally show ?thesis by (simp only: u lower_char_same [OF nl])
next
  case False
  have "ascii_upper c = c"
    unfolding ascii_upper_def Let_def using False by (rule if_not_P)
  then show ?thesis by simp
qed

lemma lower_char_idem: "lower_char (lower_char c) = lower_char c"
proof (cases "has_lower (ord c)")
  case True
  then have "ord c + 32 < 256" unfolding has_lower_def by arith
  then have o: "ord (char_of (ord c + 32)) = ord c + 32"
    by (rule ord_char_of)
  have nl: "\<not> has_lower (ord c + 32)"
    using True unfolding has_lower_def by arith
  have "lower_char (char_of (ord c + 32)) = char_of (ord c + 32)"
    using nl lower_char_same [of "char_of (ord c + 32)", unfolded o] by blast
  then show ?thesis by (simp only: lower_char_changed [OF True])
next
  case False
  then show ?thesis by (simp add: lower_char_same)
qed

lemma goodbye_punct:
  "\<forall>c\<in>set ps. punctuation c \<Longrightarrow> is_goodbye_command (text @ ps) = is_goodbye_command text"
  by (simp add: is_goodbye_command_def py_lower_def re_sub_nonword_def punctuation_def
      lower_char_punctuation)

lemma goodbye_upper: "is_goodbye_command (map ascii_upper text) = is_goodbye_command text"
  by (simp add: is_goodbye_command_def py_lower_def lower_char_ascii_upper comp_def)

lemma goodbye_lower: "is_goodbye_command (py_lower text) = is_goodbye_command text"
  by (simp add: is_goodbye_command_def py_lower_def lower_char_idem comp_def)

lemma goodbye_examples:
  "is_goodbye_command ''GOODBYE!''" "is_goodbye_command ''goodbye.''"
  "is_goodbye_command ''Goodbye''" "\<not> is_goodbye_command ''goodbyee''"
  by code_simp+

text \<open>
  Claim C9.  Goodbye detection is an exact match of the cleaned text (lower-cased,
  punctuation deleted, surrounding whitespace stripped) against the eight fixed phrases.
  It is invariant under case (capitalising or lower-casing the text does not change the
  answer) and under trailing punctuation (appending characters the regular expression
  deletes does not change the answer).  "GOODBYE!", "goodbye." and "Goodbye" match;
  "goodbyee" does not.
\<close>

theorem goodbye_detection_invariant:
  assumes "\<forall>c\<in>set ps. punctuation c"
  shows "(is_goodbye_command text \<longleftrightarrow>
            py_strip (re_sub_nonword (py_lower text)) \<in>
              {''goodbye'', ''bye'', ''bye bye'', ''see you'', ''see you later'',
               ''talk to you later'', ''exit'', ''quit''}) \<and>
         is_goodbye_command (map ascii_upper text @ ps) = is_goodbye_command text \<and>
         is_goodbye_command (py_lower text @ ps) = is_goodbye_command text \<and>
         is_goodbye_command (text @ ps) = is_goodbye_command text \<and>
         is_goodbye_command ''GOODBYE!'' \<and> is_goodbye_command ''goodbye.'' \<and>
         is_goodbye_command ''Goodbye'' \<and> \<not> is_goodbye_command ''goodbyee''"
proof -
  have "is_goodbye_command text \<longleftrightarrow>
          py_strip (re_sub_nonword (py_lower text)) \<in>
            {''goodbye'', ''bye'', ''bye bye'', ''see you'', ''see you later'',
             ''talk to you later'', ''exit'', ''quit''}"
    by (simp add: is_goodbye_command_def goodbye_phrases_def Let_def)
  moreover have "is_goodbye_command (map ascii_upper text @ ps) = is_goodbye_command text"
    using assms by (simp only: goodbye_punct goodbye_upper)
  moreover have "is_goodbye_command (py_lower text @ ps) = is_goodbye_command text"
    using assms by (simp only: goodbye_punct goodbye_lower)
  moreover have "is_goodbye_command (text @ ps) = is_goodbye_command text"
    using assms by (rule goodbye_punct)
  ultimately show ?thesis
    using goodbye_examples by blast
qed

theorem goodbye_detection_invariant_witness:
  "punctuation CHR ''?'' \<and> punctuation CHR ''!'' \<and>
   is_goodbye_command (map ascii_upper ''see you later'' @ ''?!'') \<and>
   is_goodbye_command ''see you later'' \<and>
   is_goodbye_command (map ascii_upper ''goodbyee'' @ ''?!'') = is_goodbye_command ''goodbyee''"
proof -
  have p: "\<forall>c\<in>set ''?!''. punctuation c" by code_simp
  have g: "is_goodbye_command ''see you later''" by code_simp
  show ?thesis
    using p g goodbye_detection_invariant [OF p, of "''see you later''"]
      goodbye_detection_invariant [OF p, of "''goodbyee''"]
    by simp
qed

section \<open>Properties of the transcription post-filter\<close>

lemma filter_ascii_id: "is_ascii s \<Longrightarrow> filter (\<lambda>c. ord c < 128) s = s"
  by (simp add: is_ascii_def list_all_iff)

lemma is_ascii_filter: "is_ascii (filter (\<lambda>c. ord c < 128) s)"
  by (simp add: is_ascii_def list_all_iff)

lemma transcribe_unfold:
  assumes "sample_rate ac \<noteq> 0"
  shows "transcribe (Some m) ac tc audio_frames =
     (if audio_frames = [] \<or> audio_duration ac audio_frames < min_audio_length tc \<or>
         length (ascii_text m audio_frames) \<le> 1 \<or> ascii_text m audio_frames \<in> {''...'', ''---''}
      then Inr None else Inr (Some (ascii_text m audio_frames)))"
proof -
  have e: "(if is_ascii (py_strip (m audio_frames)) then py_strip (m audio_frames)
        else filter (\<lambda>c. ord c < 128) (py_strip (m audio_frames))) = ascii_text m audio_frames"
    by (simp add: ascii_text_def filter_ascii_id)
  have n: "\<And>t. (length t \<le> 1 \<or> t \<in> set noise_texts) = (length t \<le> 1 \<or> t \<in> {''...'', ''---''})"
    by (auto simp: noise_texts_def)
  from assms show ?thesis
    unfolding transcribe_def Let_def option.case e n audio_duration_def by simp
qed

lemma transcribe_Some_cases:
  assumes "transcribe model ac tc audio_frames = Inr (Some t)"
  shows "\<exists>m. model = Some m \<and> sample_rate ac \<noteq> 0 \<and> t = ascii_text m audio_frames"
proof (cases model)
  case None
  with assms show ?thesis by (simp add: transcribe_def)
next
  case (Some m)
  show ?thesis
  proof (cases "sample_rate ac = 0")
    case True
    with assms Some show ?thesis
      by (simp add: transcribe_def Let_def split: if_splits)
  next
    case False
    with assms Some show ?thesis
      by (simp add: transcribe_unfold split: if_splits)
  qed
qed







text \<open>
  Claim C10.  Every string that \<open>transcribe\<close> returns contains only ASCII characters:
  it is the model's text, stripped, with every character of code 128 or more removed.
\<close>

theorem transcribe_ascii_only:
  assumes "transcribe model ac tc audio_frames = Inr (Some t)"
  shows "(\<forall>c\<in>set t. ord c < 128) \<and>
         (\<exists>m. model = Some m \<and> t = filter (\<lambda>c. ord c < 128) (py_strip (m audio_frames)))"
proof -
  from transcribe_Some_cases [OF assms]
  obtain m where m: "model = Some m" "t = ascii_text m audio_frames" by blast
  then show ?thesis by (auto simp: ascii_text_def)
qed

theorem transcribe_ascii_only_witness:
  "transcribe (Some (\<lambda>_. '' caf'' @ [CHR 0xE9] @ '' ol'' @ [CHR 0xE9] @ '' ''))
     default_audio_config default_transcription_config (replicate 100 (0::nat))
     = Inr (Some ''caf ol'') \<and> is_ascii ''caf ol''"
proof -
  have e: "transcribe (Some (\<lambda>_. '' caf'' @ [CHR 0xE9] @ '' ol'' @ [CHR 0xE9] @ '' ''))
     default_audio_config default_transcription_config (replicate 100 (0::nat))
     = Inr (Some ''caf ol'')"
    by (simp add: transcribe_def default_audio_config_def default_transcription_config_def
        py_strip_def py_isspace_def ord_def is_ascii_def noise_texts_def)
  show ?thesis
    using e transcribe_ascii_only [OF e] by (simp add: is_ascii_def list_all_iff)
qed

section \<open>Properties of the end-of-segment trimming\<close>

lemma last_speech_from_None:
  "last_speech_from vad fs n = None \<longleftrightarrow> (\<forall>j<n. \<not> vad (fs ! j) > 6 / 10)"
  by (induction n) (auto simp: less_Suc_eq)

lemma last_speech_from_Some:
  "last_speech_from vad fs n = Some i \<longleftrightarrow>
     i < n \<and> vad (fs ! i) > 6 / 10 \<and> (\<forall>j. i < j \<and> j < n \<longrightarrow> \<not> vad (fs ! j) > 6 / 10)"
proof (induction n)
  case 0
  then show ?case by simp
next
  case (Suc n)
  show ?case
  proof (cases "vad (fs ! n) > 6 / 10")
    case True
    then show ?thesis
      by (auto simp: less_Suc_eq)
  next
    case False
    then show ?thesis
      using Suc by (auto simp: less_Suc_eq)
  qed
qed

lemma trim_prefix: "\<exists>rest. fs = trim_silence_with_vad vm fs @ rest"
proof -
  have "\<And>k. \<exists>rest. fs = take k fs @ rest"
    by (metis append_take_drop_id)
  then show ?thesis
    by (auto simp: trim_silence_with_vad_def Let_def split: option.splits)
qed

lemma trim_found:
  assumes "20 \<le> length fs" "i < length fs" "vad (fs ! i) > 6 / 10"
    "\<forall>j. i < j \<and> j < length fs \<longrightarrow> \<not> vad (fs ! j) > 6 / 10"
  shows "trim_silence_with_vad (Some vad) fs = take (min (i + 10) (length fs)) fs"
proof -
  from assms have "last_speech_from vad fs (length fs) = Some i"
    by (simp add: last_speech_from_Some)
  with assms show ?thesis
    by (simp add: trim_silence_with_vad_def)
qed

lemma trim_none_found:
  assumes "20 \<le> length fs" "\<forall>j<length fs. \<not> vad (fs ! j) > 6 / 10"
  shows "trim_silence_with_vad (Some vad) fs = fs"
proof -
  from assms have "last_speech_from vad fs (length fs) = None"
    by (simp add: last_speech_from_None)
  with assms show ?thesis
    by (simp add: trim_silence_with_vad_def)
qed

text \<open>
  Claim C7, as the code has it.  The trimming pass returns a prefix of its input.  A
  list of fewer than 20 chunks, or any list when no probability model is loaded, is
  returned unchanged.  For a list of at least 20 chunks the pass scans backward to the
  last chunk whose speech probability exceeds 0.6; with that chunk at index \<open>i\<close> the
  result is the first \<open>min (i + 10) (length fs)\<close> chunks (the speech chunk and up to
  nine chunks after it); when no chunk exceeds 0.6 the list is returned unchanged.
\<close>

theorem trim_silence_rule:
  "trim_silence_with_vad None fs = fs \<and>
   (length fs < 20 \<longrightarrow> trim_silence_with_vad (Some vad) fs = fs) \<and>
   (20 \<le> length fs \<and> i < length fs \<and> vad (fs ! i) > 6 / 10 \<and>
      (\<forall>j. i < j \<and> j < length fs \<longrightarrow> \<not> vad (fs ! j) > 6 / 10) \<longrightarrow>
        trim_silence_with_vad (Some vad) fs = take (min (i + 10) (length fs)) fs) \<and>
   (20 \<le> length fs \<and> (\<forall>j<length fs. \<not> vad (fs ! j) > 6 / 10) \<longrightarrow>
        trim_silence_with_vad (Some vad) fs = fs) \<and>
   (\<exists>rest. fs = trim_silence_with_vad vm fs @ rest)"
proof -
  have a: "trim_silence_with_vad None fs = fs"
    by (simp add: trim_silence_with_vad_def)
  have b: "length fs < 20 \<longrightarrow> trim_silence_with_vad (Some vad) fs = fs"
    by (simp add: trim_silence_with_vad_def)
  from a b trim_found [of fs i vad] trim_none_found [of fs vad] trim_prefix [of fs vm]
  show ?thesis by blast
qed

lemma demo_vad_values: "demo_vad [90] > 6 / 10" "\<not> demo_vad [0] > 6 / 10"
  by (simp_all add: demo_vad_def)

theorem trim_silence_rule_witness:
  "trim_silence_with_vad (Some demo_vad) (replicate 3 [0] @ [[90]] @ replicate 21 [0])
     = replicate 3 [0] @ [[90]] @ replicate 9 [0] \<and>
   trim_silence_with_vad (Some demo_vad) (replicate 3 [0] @ [[90]] @ replicate 10 [0])
     = replicate 3 [0] @ [[90]] @ replicate 10 [0]"
proof -
  let ?fs = "replicate 3 [0] @ [[90]] @ replicate 21 [0] :: chunk list"
  let ?gs = "replicate 3 [0] @ [[90]] @ replicate 10 [0] :: chunk list"
  have l: "length ?fs = 25" "length ?gs = 14" by simp_all
  have i: "?fs ! 3 = [90]" by (simp add: nth_append)
  have r: "\<forall>j. 3 < j \<and> j < length ?fs \<longrightarrow> \<not> demo_vad (?fs ! j) > 6 / 10"
    using demo_vad_values(2) by (auto simp: nth_append nth_Cons')
  have t: "take (min (3 + 10) (length ?fs)) ?fs = replicate 3 [0] @ [[90]] @ replicate 9 [0]"
    by (simp add: numeral_eq_Suc)
  from trim_silence_rule [of ?fs demo_vad 3 None] l i r demo_vad_values(1)
  have "trim_silence_with_vad (Some demo_vad) ?fs = take (min (3 + 10) (length ?fs)) ?fs"
    by simp
  moreover from trim_silence_rule [of ?gs demo_vad 0 None] l
  have "trim_silence_with_vad (Some demo_vad) ?gs = ?gs"
    by simp
  ultimately show ?thesis by (simp only: t)
qed

text \<open>
  The claim as worded fails on a list of 12 chunks whose only speech chunk is the first:
  the pass returns all 12 chunks instead of the first 10.
\<close>

theorem trim_silence_rule_counterexample:
  "length ([90] # replicate 11 [0] :: chunk list) = 12 \<and>
   demo_vad (([90] # replicate 11 [0]) ! 0) > 6 / 10 \<and>
   trim_silence_with_vad (Some demo_vad) ([90] # replicate 11 [0])
     = [90] # replicate 11 [0] \<and>
   trim_silence_with_vad (Some demo_vad) ([90] # replicate 11 [0])
     \<noteq> take (min (0 + 10) 12) ([90] # replicate 11 [0])"
proof -
  let ?fs = "[90] # replicate 11 [0] :: chunk list"
  have e: "trim_silence_with_vad (Some demo_vad) ?fs = ?fs"
    by (simp add: trim_silence_with_vad_def)
  have n: "?fs \<noteq> take (min (0 + 10) 12) ?fs"
  proof
    assume "?fs = take (min (0 + 10) 12) ?fs"
    then have "length ?fs = length (take (min (0 + 10) 12) ?fs)"
      by (rule arg_cong)
    then show False by simp
  qed
  have p: "demo_vad (?fs ! 0) > 6 / 10"
    using demo_vad_values(1) by simp
  have l: "length ?fs = 12" by simp
  from l p e n show ?thesis by (simp only: e simp_thms)
qed

section \<open>Properties of noise calibration\<close>

lemma np_mean_replicate: "0 < n \<Longrightarrow> np_mean (replicate n c) = c"
  by (simp add: np_mean_def sum_list_replicate)

lemma np_std_replicate: "0 < n \<Longrightarrow> np_std (replicate n c) = 0"
  by (simp add: np_std_def np_mean_replicate map_replicate_const)

lemma amplitude_constant:
  "0 < n \<Longrightarrow> get_audio_amplitude (replicate n w) = Some \<bar>real_of_int (sint w)\<bar>"
  by (simp add: get_audio_amplitude_def np_mean_replicate map_replicate_const)

text \<open>
  What calibration does establish: the noise floor is the mean plus two standard
  deviations of the amplitudes, the threshold is at least three times the noise floor,
  and both are functions of the amplitudes alone.
\<close>

lemma calibrate_threshold:
  assumes "calibrate_noise_floor ac stream = Calibrated ac'"
  shows "\<exists>nf. noise_floor ac' = Some nf \<and> silence_threshold ac' = max (nf * 3) 1000 \<and>
           silence_threshold ac' \<ge> 3 * nf \<and>
           nf = np_mean (map (the \<circ> get_audio_amplitude) (take (calibration_samples ac) stream)) +
                2 * np_std (map (the \<circ> get_audio_amplitude) (take (calibration_samples ac) stream))"
  using assms
  by (auto simp: calibrate_noise_floor_def Let_def split: if_splits)

text \<open>
  Claim C5.  The minimum in \<open>calibrate_noise_floor\<close> is the literal 1000, not the
  configured silence threshold.  With a threshold of 2000 configured and fifty chunks
  of constant amplitude 100, calibration sets the noise floor to 100 and the threshold
  to 1000, below the configured value; \<open>load_calibration\<close>, which applies the same rule
  when the recorder is constructed, takes the configured threshold as the minimum and
  yields 2000 from the same noise floor.
\<close>

theorem calibrate_ignores_configured_minimum:
  "calibrate_noise_floor (default_audio_config\<lparr>silence_threshold := 2000\<rparr>)
     (replicate 50 (replicate 1024 100))
   = Calibrated (default_audio_config\<lparr>noise_floor := Some 100, silence_threshold := 1000\<rparr>) \<and>
   load_calibration (default_audio_config\<lparr>silence_threshold := 2000\<rparr>) (Some (Some 100))
   = default_audio_config\<lparr>noise_floor := Some 100, silence_threshold := 2000\<rparr>"
proof -
  have a: "get_audio_amplitude (replicate 1024 100) = Some 100"
    using amplitude_constant [of 1024 100] by simp
  have t: "take (calibration_samples (default_audio_config\<lparr>silence_threshold := 2000\<rparr>))
             (replicate 50 (replicate 1024 (100 :: 16 word))) = replicate 50 (replicate 1024 100)"
    by (simp add: default_audio_config_def)
  have c: "calibrate_noise_floor (default_audio_config\<lparr>silence_threshold := 2000\<rparr>)
     (replicate 50 (replicate 1024 100))
   = Calibrated (default_audio_config\<lparr>noise_floor := Some 100, silence_threshold := 1000\<rparr>)"
    unfolding calibrate_noise_floor_def t
    by (simp add: a map_replicate_const np_mean_replicate np_std_replicate default_audio_config_def)
  have l: "load_calibration (default_audio_config\<lparr>silence_threshold := 2000\<rparr>) (Some (Some 100))
   = default_audio_config\<lparr>noise_floor := Some 100, silence_threshold := 2000\<rparr>"
    by (simp add: load_calibration_def default_audio_config_def)
  from c l show ?thesis by simp
qed

section \<open>Properties of amplitude-based recording\<close>

lemma amp_loop_quiet:
  assumes "list_all (quiet_event ac) es" "\<not> a_recording_started s" "a_frames s = []"
  shows "amp_loop ac timeout start_time s es = Pending \<or>
         amp_loop ac timeout start_time s es = Returned None"
  using assms
proof (induction es)
  case Nil
  then show ?case by simp
next
  case (Cons e es)
  show ?case
  proof (cases e)
    case (Tick k)
    with Cons show ?thesis
      by (simp add: quiet_event_def amp_finish_def)
  next
    case KeyboardInterrupt
    then show ?thesis by simp
  qed
qed

lemma amp_loop_timeout:
  assumes "list_all (quiet_event ac) pre" "\<not> a_recording_started s" "a_frames s = []"
    "timed_out timeout start_time (at_timeout_check k)"
  shows "amp_loop ac timeout start_time s (pre @ Tick k # rest) = Returned None"
  using assms
proof (induction pre)
  case Nil
  then show ?case by (simp add: amp_finish_def)
next
  case (Cons e es)
  show ?case
  proof (cases e)
    case (Tick k')
    with Cons show ?thesis
      by (simp add: quiet_event_def amp_finish_def)
  next
    case KeyboardInterrupt
    then show ?thesis by simp
  qed
qed

text \<open>
  Claim C6.  Let the recorder be called with a timeout \<open>t\<close> (not zero), and let no chunk
  read before the loop's first timeout check past \<open>t\<close> have an amplitude above the
  silence threshold.  Then \<open>record_with_amplitude\<close> returns, and it returns none: not a
  segment and not an exception, whatever the stream holds afterwards.  More generally,
  on chunks that never exceed the threshold the recorder never returns a segment.
\<close>

theorem silence_never_starts_segment:
  assumes "list_all (quiet_event ac) pre" and "t \<noteq> 0"
    and "at_timeout_check k - start_time > t"
  shows "record_with_amplitude ac (Some t) start_time (pre @ Tick k # rest) = Returned None \<and>
         (record_with_amplitude ac timeout start_time pre = Pending \<or>
          record_with_amplitude ac timeout start_time pre = Returned None)"
proof -
  have "timed_out (Some t) start_time (at_timeout_check k)"
    using assms by (simp add: timed_out_def)
  then have "amp_loop ac (Some t) start_time amp_init (pre @ Tick k # rest) = Returned None"
    using assms(1) by (intro amp_loop_timeout) (simp_all add: amp_init_def)
  moreover have "amp_loop ac timeout start_time amp_init pre = Pending \<or>
      amp_loop ac timeout start_time amp_init pre = Returned None"
    using assms(1) by (intro amp_loop_quiet) (simp_all add: amp_init_def)
  ultimately show ?thesis
    by (simp add: record_with_amplitude_def)
qed

lemma quiet_chunk: "\<not> exceeds (get_audio_amplitude [300, - 400]) 1000"
proof -
  have "sqrt 125000 \<le> 1000" by (rule real_le_lsqrt) simp_all
  then show ?thesis
    by (simp add: get_audio_amplitude_def np_mean_def exceeds_def)
qed

theorem silence_never_starts_segment_witness:
  "record_with_amplitude default_audio_config (Some 5) 100
     [Tick \<lparr>at_timeout_check = 101, at_inactivity_check = 101,
            chunk_read = [300, - 400], at_chunk_end = 102\<rparr>,
      Tick \<lparr>at_timeout_check = 104, at_inactivity_check = 104,
            chunk_read = [300, - 400], at_chunk_end = 105\<rparr>,
      Tick \<lparr>at_timeout_check = 106, at_inactivity_check = 106,
            chunk_read = [30000, 30000], at_chunk_end = 107\<rparr>,
      Tick \<lparr>at_timeout_check = 107, at_inactivity_check = 107,
            chunk_read = [30000, 30000], at_chunk_end = 108\<rparr>]
   = Returned None"
proof -
  have q: "list_all (quiet_event default_audio_config)
     [Tick \<lparr>at_timeout_check = 101, at_inactivity_check = 101,
            chunk_read = [300, - 400], at_chunk_end = 102\<rparr>,
      Tick \<lparr>at_timeout_check = 104, at_inactivity_check = 104,
            chunk_read = [300, - 400], at_chunk_end = 105\<rparr>]"
    using quiet_chunk by (simp add: quiet_event_def default_audio_config_def)
  have t: "(5::real) \<noteq> 0" by simp
  have k: "at_timeout_check \<lparr>at_timeout_check = 106, at_inactivity_check = 106,
            chunk_read = [30000, 30000], at_chunk_end = 107\<rparr> - 100 > (5::real)"
    by simp
  from silence_never_starts_segment [OF q t k] show ?thesis by simp
qed

section \<open>Properties of recording with voice activity detection\<close>

lemma vad_loop_append:
  "vad_after vad ac vc timeout st s pre = Some s' \<Longrightarrow>
   vad_loop vad ac vc timeout st s (pre @ es) = vad_loop vad ac vc timeout st s' es"
  by (induction pre arbitrary: s) (auto split: sum.splits)

lemma trigger_pass:
  assumes "\<not> recording_started s"
    "\<not> timed_out timeout st (at_timeout_check k)"
    "\<not> at_inactivity_check k - last_activity_time s > inactivity_timeout vc"
    "vad (chunk_read k) > speech_start_threshold vc"
    "6 / 10 \<le> speech_start_threshold vc"
    "consecutive_speech_count s + 1 \<ge> consecutive_speech_needed vc"
  shows "vad_pass vad ac vc timeout st s (Tick k) =
     Inr (s\<lparr>pre_buffer := [], recording_started := True,
            frames := frames s @ deque_append (pre_buffer_size vc) (pre_buffer s) (chunk_read k)
                        @ [chunk_read k],
            consecutive_speech_count := consecutive_speech_count s + 1,
            last_activity_time := at_chunk_end k, silence_start_time := None\<rparr>)"
proof -
  from assms(4,5) have "vad (chunk_read k) > 6 / 10" by simp
  with assms show ?thesis
    by (simp add: vad_pass_def vad_classify_def Let_def)
qed

lemma first_silent_pass:
  assumes "recording_started s" "silence_start_time s = None"
    "\<not> vad (chunk_read q) > speech_continue_threshold vc"
    "\<not> at_inactivity_check q - last_activity_time s > inactivity_timeout vc"
  shows "vad_pass vad ac vc timeout st s (Tick q) =
     Inr (s\<lparr>consecutive_speech_count := 0, frames := frames s @ [chunk_read q],
            silence_start_time := Some (at_chunk_end q)\<rparr>)"
  using assms by (simp add: vad_pass_def vad_classify_def Let_def)

lemma later_silent_pass:
  assumes "recording_started s" "silence_start_time s = Some t1"
    "\<not> vad (chunk_read q) > speech_continue_threshold vc"
    "\<not> at_inactivity_check q - last_activity_time s > inactivity_timeout vc"
  shows "vad_pass vad ac vc timeout st s (Tick q) =
     (if at_chunk_end q - t1 > silence_duration ac
      then Inl (vad_finish vad (s\<lparr>consecutive_speech_count := 0, frames := frames s @ [chunk_read q]\<rparr>))
      else Inr (s\<lparr>consecutive_speech_count := 0, frames := frames s @ [chunk_read q]\<rparr>))"
  using assms by (simp add: vad_pass_def vad_classify_def Let_def)

lemma silent_run:
  assumes "recording_started s" "silence_start_time s = Some t1"
    "list_all (\<lambda>q. \<not> vad (chunk_read q) > speech_continue_threshold vc \<and>
                   \<not> at_inactivity_check q - last_activity_time s > inactivity_timeout vc)
       (mid @ [qn])"
    "list_all (\<lambda>q. \<not> at_chunk_end q - t1 > silence_duration ac) mid"
    "at_chunk_end qn - t1 > silence_duration ac"
  shows "vad_loop vad ac vc timeout st s (map Tick mid @ Tick qn # rest) =
     Returned (Some (trim_silence_with_vad (Some vad)
                  (frames s @ map chunk_read (mid @ [qn]))))"
  using assms
proof (induction mid arbitrary: s)
  case Nil
  then show ?case
    by (simp add: later_silent_pass vad_finish_def)
next
  case (Cons q mid)
  let ?s' = "s\<lparr>consecutive_speech_count := 0, frames := frames s @ [chunk_read q]\<rparr>"
  from Cons.prems have p: "vad_pass vad ac vc timeout st s (Tick q) = Inr ?s'"
    by (simp add: later_silent_pass)
  have "vad_loop vad ac vc timeout st ?s' (map Tick mid @ Tick qn # rest) =
     Returned (Some (trim_silence_with_vad (Some vad)
                  (frames ?s' @ map chunk_read (mid @ [qn]))))"
    using Cons.prems by (intro Cons.IH) simp_all
  with p show ?case by simp
qed


lemma deque_append_length: "length (deque_append n q x) \<le> n"
  by (simp add: deque_append_def Let_def)

lemma deque_append_set: "set (deque_append n q x) \<subseteq> insert x (set q)"
proof -
  have "set (drop (length (q @ [x]) - n) (q @ [x])) \<subseteq> set (q @ [x])"
    by (rule set_drop_subset)
  then show ?thesis by (simp add: deque_append_def Let_def)
qed

lemma deque_append_all: "list_all P q \<Longrightarrow> P x \<Longrightarrow> list_all P (deque_append n q x)"
  using deque_append_set [of n q x] by (auto simp: list_all_iff)

lemma vad_classify_inv:
  assumes "vad_inv vad vc s" "vad_classify vad ac vc s t = (s', leave)"
  shows "vad_inv vad vc s'"
proof -
  let ?s1 = "if \<not> recording_started s \<and> vad (chunk_read t) > 6 / 10
             then s\<lparr>pre_buffer := deque_append (pre_buffer_size vc) (pre_buffer s) (chunk_read t)\<rparr>
             else s"
  have i1: "vad_inv vad vc ?s1"
    using assms(1) by (auto simp: vad_inv_def deque_append_length deque_append_all)
  have r1: "recording_started ?s1 = recording_started s" by simp
  from assms(2) i1 show ?thesis
    unfolding vad_classify_def Let_def
    by (auto simp: vad_inv_def split: if_splits option.splits)
qed

lemma vad_pass_inv:
  assumes "vad_inv vad vc s" "vad_pass vad ac vc timeout st s e = Inr s'"
  shows "vad_inv vad vc s'"
proof (cases e)
  case (Tick t)
  obtain s1 leave where c: "vad_classify vad ac vc s t = (s1, leave)"
    by (cases "vad_classify vad ac vc s t")
  with assms(2) Tick have "s' = s1"
    by (simp add: vad_pass_def split: if_splits)
  with vad_classify_inv [OF assms(1) c] show ?thesis by simp
next
  case KeyboardInterrupt
  with assms(2) show ?thesis by (simp add: vad_pass_def)
qed

lemma vad_after_inv:
  "vad_inv vad vc s \<Longrightarrow> vad_after vad ac vc timeout st s pre = Some s' \<Longrightarrow> vad_inv vad vc s'"
proof (induction pre arbitrary: s)
  case Nil
  then show ?case by simp
next
  case (Cons e pre)
  then show ?case
    by (auto split: sum.splits dest: vad_pass_inv)
qed

lemma vad_init_inv: "vad_inv vad vc (vad_init t0)"
  by (simp add: vad_inv_def vad_init_def)

lemma trim_segment:
  assumes "vad d > 6 / 10" "list_all (\<lambda>c. \<not> vad c > 6 / 10) S"
  shows "trim_silence_with_vad (Some vad) (B @ [d] @ S) = segment_of B d S"
proof (cases "length (B @ [d] @ S) < 20")
  case True
  then show ?thesis
    by (simp add: trim_silence_with_vad_def segment_of_def)
next
  case False
  let ?fs = "B @ [d] @ S"
  have a: "20 \<le> length ?fs" using False by simp
  have b: "length B < length ?fs" by simp
  have c: "vad (?fs ! length B) > 6 / 10" using assms(1) by (simp add: nth_append)
  have e: "\<forall>j. length B < j \<and> j < length ?fs \<longrightarrow> \<not> vad (?fs ! j) > 6 / 10"
  proof (intro allI impI)
    fix j assume j: "length B < j \<and> j < length ?fs"
    then have "?fs ! j = S ! (j - length B - 1)"
      by (auto simp: nth_append nth_Cons')
    moreover have "j - length B - 1 < length S" using j by auto
    ultimately show "\<not> vad (?fs ! j) > 6 / 10"
      using assms(2) by (simp add: list_all_length)
  qed
  have "trim_silence_with_vad (Some vad) ?fs = take (min (length B + 10) (length ?fs)) ?fs"
    using a b c e by (rule trim_found)
  also have "\<dots> = B @ [d] @ take 9 S"
    using False by (auto simp: min_def take_Cons' )
  finally show ?thesis using False by (simp add: segment_of_def)
qed

lemma segment_of_length:
  "length (segment_of B d S) =
     length B + 1 + (if length B + 1 + length S < 20 then length S else min 9 (length S))"
  by (simp add: segment_of_def min_def)

text \<open>
  Claim C3, as the code has it.  Let the loop be still listening, not yet recording,
  when a chunk \<open>k\<close> arrives whose probability exceeds the start threshold and completes
  the required number of consecutive such chunks; let every later chunk have a
  probability not above the continue threshold, until the clock reading taken after a
  chunk \<open>qn\<close> exceeds the reading taken after the first silent chunk \<open>q1\<close> by more than
  \<open>silence_duration\<close> (no inactivity timeout in between; continue threshold at most 0.6,
  start threshold at least 0.6, as in the default configuration).  Then
  \<open>record_with_vad\<close> returns a segment: the pre-buffer contents at start (at most
  \<open>pre_buffer_size\<close> chunks, all of probability above 0.6, the last of them being \<open>k\<close>'s
  chunk itself when the capacity is not zero), then \<open>k\<close>'s chunk, then the trailing chunks
  read, all of them when the whole has fewer than 20 chunks and the first nine
  otherwise.  The segment is a function of the chunk data and of the number of trailing
  chunks read before the clock ends the silence; with 20 chunks or more it does not
  depend on that number.
\<close>

theorem vad_segment_count:
  fixes vc s k q1 mid qn B S
  defines "B \<equiv> deque_append (pre_buffer_size vc) (pre_buffer s) (chunk_read k)"
    and "S \<equiv> map chunk_read (q1 # mid @ [qn])"
  assumes "vad_after vad ac vc timeout st (vad_init t0) pre = Some s"
    and "\<not> recording_started s"
    and "speech_continue_threshold vc \<le> 6 / 10" and "6 / 10 \<le> speech_start_threshold vc"
    and "\<not> timed_out timeout st (at_timeout_check k)"
    and "\<not> at_inactivity_check k - last_activity_time s > inactivity_timeout vc"
    and "vad (chunk_read k) > speech_start_threshold vc"
    and "consecutive_speech_count s + 1 \<ge> consecutive_speech_needed vc"
    and "list_all (\<lambda>q. \<not> vad (chunk_read q) > speech_continue_threshold vc \<and>
                     \<not> at_inactivity_check q - at_chunk_end k > inactivity_timeout vc)
           (q1 # mid @ [qn])"
    and "list_all (\<lambda>q. \<not> at_chunk_end q - at_chunk_end q1 > silence_duration ac) mid"
    and "at_chunk_end qn - at_chunk_end q1 > silence_duration ac"
  shows "record_with_vad (Some vad) ac vc timeout st t0
           (pre @ Tick k # Tick q1 # map Tick mid @ Tick qn # rest)
           = Returned (Some (segment_of B (chunk_read k) S)) \<and>
         length (segment_of B (chunk_read k) S)
           = length B + 1 + (if length B + 1 + length S < 20 then length S else min 9 (length S)) \<and>
         (20 \<le> length B + 1 + length S \<longrightarrow>
            segment_of B (chunk_read k) S = B @ [chunk_read k] @ take 9 S) \<and>
         length B \<le> pre_buffer_size vc \<and> list_all (\<lambda>c. vad c > 6 / 10) B"
proof -
  have inv: "vad_inv vad vc s"
    using vad_init_inv assms(3) by (rule vad_after_inv)
  with assms(4) have f: "frames s = []" by (simp add: vad_inv_def)
  have d: "vad (chunk_read k) > 6 / 10" using assms(6,9) by simp
  let ?s1 = "s\<lparr>pre_buffer := [], recording_started := True,
            frames := frames s @ B @ [chunk_read k],
            consecutive_speech_count := consecutive_speech_count s + 1,
            last_activity_time := at_chunk_end k, silence_start_time := None\<rparr>"
  let ?s2 = "?s1\<lparr>consecutive_speech_count := 0, frames := frames ?s1 @ [chunk_read q1],
            silence_start_time := Some (at_chunk_end q1)\<rparr>"
  have p1: "vad_pass vad ac vc timeout st s (Tick k) = Inr ?s1"
    unfolding B_def using assms(4,7,8,9,6,10) by (rule trigger_pass)
  have p2: "vad_pass vad ac vc timeout st ?s1 (Tick q1) = Inr ?s2"
    using assms(11) by (intro first_silent_pass) simp_all
  have r: "vad_loop vad ac vc timeout st ?s2 (map Tick mid @ Tick qn # rest) =
     Returned (Some (trim_silence_with_vad (Some vad)
                  (frames ?s2 @ map chunk_read (mid @ [qn]))))"
    using assms(11,12,13) by (intro silent_run) simp_all
  have fr: "frames ?s2 @ map chunk_read (mid @ [qn]) = B @ [chunk_read k] @ S"
    by (simp add: f S_def)
  have sil: "list_all (\<lambda>c. \<not> vad c > 6 / 10) S"
    using assms(11,5) unfolding S_def by (auto simp: list_all_iff)
  have "vad_loop vad ac vc timeout st (vad_init t0)
          (pre @ Tick k # Tick q1 # map Tick mid @ Tick qn # rest)
        = vad_loop vad ac vc timeout st s (Tick k # Tick q1 # map Tick mid @ Tick qn # rest)"
    using assms(3) by (rule vad_loop_append)
  also have "\<dots> = vad_loop vad ac vc timeout st ?s1 (Tick q1 # map Tick mid @ Tick qn # rest)"
    by (simp only: vad_loop.simps p1 sum.case)
  also have "\<dots> = vad_loop vad ac vc timeout st ?s2 (map Tick mid @ Tick qn # rest)"
    by (simp only: vad_loop.simps p2 sum.case)
  also have "\<dots> = Returned (Some (segment_of B (chunk_read k) S))"
    by (simp only: r fr trim_segment [OF d sil])
  finally have main: "record_with_vad (Some vad) ac vc timeout st t0
           (pre @ Tick k # Tick q1 # map Tick mid @ Tick qn # rest)
           = Returned (Some (segment_of B (chunk_read k) S))"
    by (simp add: record_with_vad_def)
  have b1: "length B \<le> pre_buffer_size vc"
    unfolding B_def by (rule deque_append_length)
  have b2: "list_all (\<lambda>c. vad c > 6 / 10) B"
    unfolding B_def using inv d by (intro deque_append_all) (simp_all add: vad_inv_def)
  have b3: "20 \<le> length B + 1 + length S \<longrightarrow>
            segment_of B (chunk_read k) S = B @ [chunk_read k] @ take 9 S"
    by (simp add: segment_of_def)
  from main b1 b2 b3 segment_of_length [of B "chunk_read k" S] show ?thesis by simp
qed

lemmas vad_eval = record_with_vad_def vad_init_def vad_pass_def vad_classify_def
  vad_finish_def trim_silence_with_vad_def deque_append_def demo_vad_def timed_out_def
  default_audio_config_def default_vad_config_def Let_def tick_at_def

theorem vad_segment_count_witness:
  "record_with_vad (Some demo_vad) default_audio_config default_vad_config (Some 30) 0 0
     [tick_at 1 [90], tick_at 2 [91], tick_at 3 [0], tick_at 4 [1], tick_at 6 [2],
      tick_at 7 [95]]
   = Returned (Some [[90], [91], [91], [0], [1], [2]])"
proof -
  let ?s = "\<lparr>frames = [], pre_buffer = [[90]], recording_started = False,
            consecutive_speech_count = 1, silence_start_time = None,
            last_activity_time = 1\<rparr>"
  let ?k = "\<lparr>at_timeout_check = 2, at_inactivity_check = 2, chunk_read = [91],
            at_chunk_end = 2\<rparr>"
  let ?q1 = "\<lparr>at_timeout_check = 3, at_inactivity_check = 3, chunk_read = [0],
            at_chunk_end = 3\<rparr>"
  let ?m = "\<lparr>at_timeout_check = 4, at_inactivity_check = 4, chunk_read = [1],
            at_chunk_end = 4\<rparr>"
  let ?qn = "\<lparr>at_timeout_check = 6, at_inactivity_check = 6, chunk_read = [2],
            at_chunk_end = 6\<rparr>"
  have a: "vad_after demo_vad default_audio_config default_vad_config (Some 30) 0
             (vad_init 0) [tick_at 1 [90]] = Some ?s"
    by (simp add: vad_eval)
  have b: "\<not> recording_started ?s" by simp
  have c: "speech_continue_threshold default_vad_config \<le> 6 / 10"
    "6 / 10 \<le> speech_start_threshold default_vad_config"
    by (simp_all add: default_vad_config_def)
  have d: "\<not> timed_out (Some 30) 0 (at_timeout_check ?k)"
    "\<not> at_inactivity_check ?k - last_activity_time ?s > inactivity_timeout default_vad_config"
    "demo_vad (chunk_read ?k) > speech_start_threshold default_vad_config"
    "consecutive_speech_count ?s + 1 \<ge> consecutive_speech_needed default_vad_config"
    by (simp_all add: timed_out_def default_vad_config_def demo_vad_def)
  have e: "list_all (\<lambda>q. \<not> demo_vad (chunk_read q) > speech_continue_threshold default_vad_config \<and>
                     \<not> at_inactivity_check q - at_chunk_end ?k > inactivity_timeout default_vad_config)
           (?q1 # [?m] @ [?qn])"
    by (simp add: default_vad_config_def demo_vad_def)
  have f: "list_all (\<lambda>q. \<not> at_chunk_end q - at_chunk_end ?q1
                             > silence_duration default_audio_config) [?m]"
    "at_chunk_end ?qn - at_chunk_end ?q1 > silence_duration default_audio_config"
    by (simp_all add: default_audio_config_def)
  from vad_segment_count [OF a b c d e f, of "[tick_at 7 [95]]"]
  show ?thesis
    by (simp add: segment_of_def deque_append_def default_vad_config_def tick_at_def)
qed

text \<open>
  The claim as worded fails on determinism.  The two runs below read the same chunks,
  with the same probabilities, and differ only in the clock: in the first the second
  silent chunk is classified three seconds after the first one, in the second run one
  second after it.  The first run returns five chunks, the second six.
\<close>

theorem vad_segment_count_counterexample:
  "record_with_vad (Some demo_vad) default_audio_config default_vad_config None 0 0
     [tick_at 1 [90], tick_at 2 [91], tick_at 10 [0], tick_at 13 [1], tick_at 14 [2]]
   = Returned (Some [[90], [91], [91], [0], [1]]) \<and>
   record_with_vad (Some demo_vad) default_audio_config default_vad_config None 0 0
     [tick_at 1 [90], tick_at 2 [91], tick_at 10 [0], tick_at 11 [1], tick_at 13 [2]]
   = Returned (Some [[90], [91], [91], [0], [1], [2]])"
  by (simp add: vad_eval)

section \<open>Properties of the external agent session\<close>

lemma parse_response_other:
  "p \<noteq> sf \<Longrightarrow> fst (parse_response loads sf fs out) p = fs p"
  by (auto simp: parse_response_def split: option.splits json.splits)


lemma handle_outcome_other:
  "p \<noteq> sf \<Longrightarrow> fst (handle_outcome loads sf fs outcome) p = fs p"
  by (auto simp: handle_outcome_def parse_response_other split: proc_outcome.splits)

lemma files_at_call_session:
  "files_at_call (send_query loads fs text pp reset outcome) (session_file_of pp) =
     (if reset then None else fs (session_file_of pp))"
  by (auto simp: send_query_def Let_def discard_on_reset_def)

lemma send_query_cmd:
  "cmd (send_query loads fs text pp reset outcome) =
     base_cmd @
     (case files_at_call (send_query loads fs text pp reset outcome) (session_file_of pp) of
        None \<Rightarrow> [] | Some c \<Rightarrow> [''--resume'', py_strip c]) @ [text]"
  by (auto simp: send_query_def Let_def discard_on_reset_def build_command_def
      split: option.splits)


lemma files_after_other:
  "p \<noteq> session_file_of pp \<Longrightarrow>
   files_after (send_query loads fs text pp reset outcome) p = fs p"
  by (simp add: send_query_def Let_def handle_outcome_other discard_on_reset_def)


lemma fresh_cmd:
  "fs (session_file_of pp) = None \<or> reset \<Longrightarrow>
   cmd (send_query loads fs text pp reset outcome) = base_cmd @ [text]"
  by (auto simp add: send_query_cmd files_at_call_session)







text \<open>
  Claim C2.  A dispatch with the reset flag set deletes the session file before the
  process is invoked, whatever the file held, and invokes the process with the base
  command and the text only, without a resume argument.  \<open>send_to_claude\<close> clears the
  flag after the dispatch, so the next dispatch is an ordinary one and the flag stays
  cleared: the flag is consumed by exactly one dispatch.
\<close>

theorem reset_dispatch_is_one_shot:
  assumes "reset_context_mode pm"
  shows "files_at_call (fst (send_to_claude loads fs pm text outcome))
           (session_file_of (get_current_profile_path pm)) = None \<and>
         cmd (fst (send_to_claude loads fs pm text outcome)) = base_cmd @ [text] \<and>
         fst (send_to_claude loads fs pm text outcome)
           = send_query loads fs text (get_current_profile_path pm) True outcome \<and>
         snd (send_to_claude loads fs pm text outcome) = pm\<lparr>reset_context_mode := False\<rparr> \<and>
         send_to_claude loads fs' (snd (send_to_claude loads fs pm text outcome)) text' outcome'
           = (send_query loads fs' text' (get_current_profile_path pm) False outcome',
              pm\<lparr>reset_context_mode := False\<rparr>)"
proof -
  have p: "get_current_profile_path (pm\<lparr>reset_context_mode := False\<rparr>)
             = get_current_profile_path pm"
    by (simp add: get_current_profile_path_def split: option.splits)
  from assms show ?thesis
    by (simp add: send_to_claude_def Let_def files_at_call_session fresh_cmd p)
qed

theorem reset_dispatch_is_one_shot_witness:
  "reset_context_mode
     (reset_context \<lparr>context_dir = [''.context''], current_profile = Some ''work'',
                     reset_context_mode = False, session_id = None\<rparr> ''a-uuid'') \<and>
   files_at_call
     (fst (send_to_claude demo_loads [[''.context'', ''work'', ''.session_id''] \<mapsto> ''X'']
        (reset_context \<lparr>context_dir = [''.context''], current_profile = Some ''work'',
                        reset_context_mode = False, session_id = None\<rparr> ''a-uuid'')
        ''fresh start'' (Exited 0 ''{session_id: Y, result: ok}'' [])))
     [''.context'', ''work'', ''.session_id''] = None \<and>
   cmd (fst (send_to_claude demo_loads [[''.context'', ''work'', ''.session_id''] \<mapsto> ''X'']
        (reset_context \<lparr>context_dir = [''.context''], current_profile = Some ''work'',
                        reset_context_mode = False, session_id = None\<rparr> ''a-uuid'')
        ''fresh start'' (Exited 0 ''{session_id: Y, result: ok}'' [])))
     = [''claude'', ''--print'', ''--output-format'', ''json'', ''fresh start''] \<and>
   \<not> reset_context_mode
     (snd (send_to_claude demo_loads [[''.context'', ''work'', ''.session_id''] \<mapsto> ''X'']
        (reset_context \<lparr>context_dir = [''.context''], current_profile = Some ''work'',
                        reset_context_mode = False, session_id = None\<rparr> ''a-uuid'')
        ''fresh start'' (Exited 0 ''{session_id: Y, result: ok}'' [])))"
proof -
  let ?pm = "reset_context \<lparr>context_dir = [''.context''], current_profile = Some ''work'',
                     reset_context_mode = False, session_id = None\<rparr> ''a-uuid''"
  let ?fs = "[[''.context'', ''work'', ''.session_id''] \<mapsto> ''X'']"
  let ?out = "Exited 0 ''{session_id: Y, result: ok}'' []"
  let ?d = "fst (send_to_claude demo_loads ?fs ?pm ''fresh start'' ?out)"
  have r: "reset_context_mode ?pm"
    by (simp add: reset_context_def)
  have s: "session_file_of (get_current_profile_path ?pm)
             = [''.context'', ''work'', ''.session_id'']"
    by (simp add: session_file_of_def get_current_profile_path_def reset_context_def)
  note h = reset_dispatch_is_one_shot [OF r, of demo_loads ?fs "''fresh start''" ?out
      Map.empty "''next''" Spawn_failed]
  from h have "files_at_call ?d (session_file_of (get_current_profile_path ?pm)) = None"
    by (rule conjunct1)
  then have a: "files_at_call ?d [''.context'', ''work'', ''.session_id''] = None"
    by (simp only: s)
  from h have "cmd ?d = base_cmd @ [''fresh start'']"
    by blast
  then have b: "cmd ?d = [''claude'', ''--print'', ''--output-format'', ''json'', ''fresh start'']"
    by (simp add: base_cmd_def)
  from h have "snd (send_to_claude demo_loads ?fs ?pm ''fresh start'' ?out)
                 = ?pm\<lparr>reset_context_mode := False\<rparr>"
    by blast
  then have c: "\<not> reset_context_mode (snd (send_to_claude demo_loads ?fs ?pm ''fresh start'' ?out))"
    by simp
  from r a b c show ?thesis by blast
qed

section \<open>Properties of the interruption monitor\<close>


































end
